theory Spec2Isabelle
  imports Complex_Main
begin

section \<open>Circuit Walker Sneakers: a shallow embedding of main.py\<close>

text \<open>
  The program is a single CircuitPython script.  Its floating-point quantities
  (times in seconds, gravities, hue, saturation, value) are modelled as \<open>real\<close>
  numbers, its integers as \<open>int\<close>, and the bytes of the gamma table and of a pixel
  as \<open>nat\<close>.  Every place where the script can raise is a branch that returns
  \<open>Inl\<close> of the exception.  The arithmetic of the definitions is exact, except
  in \<open>loop_body_fl\<close>, where the operations of lines 221-229 round their results as
  Python's floats do.
\<close>

subsection \<open>Configuration (lines 27-49)\<close>

definition TAP_THRESHOLD_G :: real where
  "TAP_THRESHOLD_G = 1.5"

definition TAP_TIME_LIMIT_S :: real where
  "TAP_TIME_LIMIT_S = 0.25"

definition STEP_FLASH_S :: real where
  "STEP_FLASH_S = 0.5"

definition ANIMATION_FREQ_HZ :: real where
  "ANIMATION_FREQ_HZ = 1.0"

subsection \<open>Exceptions and Python primitives\<close>

datatype py_error = IndexError | ZeroDivisionError

text \<open>\<open>int(x)\<close> on a float drops the fractional part (towards zero).\<close>

definition py_int :: "real \<Rightarrow> int" where
  "py_int x = (if 0 \<le> x then \<lfloor>x\<rfloor> else \<lceil>x\<rceil>)"

text \<open>
  \<open>a[k]\<close> on an \<open>array.array\<close>: an index below zero is taken from the end, and an
  index that is still outside the array raises \<open>IndexError\<close>.
\<close>

definition array_getitem :: "nat list \<Rightarrow> int \<Rightarrow> py_error + nat" where
  "array_getitem a k =
     (let k' = (if k < 0 then k + int (length a) else k)
      in if k' < 0 \<or> int (length a) \<le> k' then Inl IndexError
         else Inr (a ! nat k'))"

subsection \<open>Gamma table (lines 53-70)\<close>

definition GAMMA8 :: "nat list" where
  "GAMMA8 = [
    0,  0,  0,  0,  0,  0,  0,  0,  0,  0,  0,  0,  0,  0,  0,  0,
    0,  0,  0,  0,  0,  0,  0,  0,  0,  0,  0,  0,  1,  1,  1,  1,
    1,  1,  1,  1,  1,  1,  1,  1,  1,  2,  2,  2,  2,  2,  2,  2,
    2,  3,  3,  3,  3,  3,  3,  3,  4,  4,  4,  4,  4,  5,  5,  5,
    5,  6,  6,  6,  6,  7,  7,  7,  7,  8,  8,  8,  9,  9,  9, 10,
   10, 10, 11, 11, 11, 12, 12, 13, 13, 13, 14, 14, 15, 15, 16, 16,
   17, 17, 18, 18, 19, 19, 20, 20, 21, 21, 22, 22, 23, 24, 24, 25,
   25, 26, 27, 27, 28, 29, 29, 30, 31, 32, 32, 33, 34, 35, 35, 36,
   37, 38, 39, 39, 40, 41, 42, 43, 44, 45, 46, 47, 48, 49, 50, 50,
   51, 52, 54, 55, 56, 57, 58, 59, 60, 61, 62, 63, 64, 66, 67, 68,
   69, 70, 72, 73, 74, 75, 77, 78, 79, 81, 82, 83, 85, 86, 87, 89,
   90, 92, 93, 95, 96, 98, 99,101,102,104,105,107,109,110,112,114,
  115,117,119,120,122,124,126,127,129,131,133,135,137,138,140,142,
  144,146,148,150,152,154,156,158,160,162,164,167,169,171,173,175,
  177,180,182,184,186,189,191,193,196,198,200,203,205,208,210,213,
  215,218,220,223,225,228,231,233,236,239,241,244,247,249,252,255]"

subsection \<open>Helper functions (lines 74-129)\<close>

text \<open>\<open>lerp\<close> divides by \<open>x1 - x0\<close>; Python raises when that is zero.\<close>

definition lerp :: "real \<Rightarrow> real \<Rightarrow> real \<Rightarrow> real \<Rightarrow> real \<Rightarrow> py_error + real" where
  "lerp x x0 x1 y0 y1 =
     (if x1 - x0 = 0 then Inl ZeroDivisionError
      else Inr (y0 + (x - x0) * ((y1 - y0) / (x1 - x0))))"

type_synonym rgb = "nat \<times> nat \<times> nat"

text \<open>
  The linear channels \<open>(r, g, b)\<close> that \<open>HSV_to_RGB\<close> has chosen when it reaches
  line 126: the branch on \<open>s == 0.0\<close> and the six-way branch on the sector.
\<close>

definition hsv_channels :: "real \<Rightarrow> real \<Rightarrow> real \<Rightarrow> real \<times> real \<times> real" where
  "hsv_channels h s v =
     (if s = 0 then (v, v, v)
      else
        let h' = h / 60;
            i = \<lfloor>h'\<rfloor>;
            f = h' - of_int i;
            p = v * (1 - s);
            q = v * (1 - s * f);
            t = v * (1 - s * (1 - f))
        in if i = 0 then (v, t, p)
           else if i = 1 then (q, v, p)
           else if i = 2 then (p, v, t)
           else if i = 3 then (p, q, v)
           else if i = 4 then (t, p, v)
           else (v, p, q))"

text \<open>Lines 126-129: each channel indexes the gamma table, red first.\<close>

definition HSV_to_RGB :: "real \<Rightarrow> real \<Rightarrow> real \<Rightarrow> py_error + rgb" where
  "HSV_to_RGB h s v =
     (case hsv_channels h s v of (r, g, b) \<Rightarrow>
        (case array_getitem GAMMA8 (py_int (255 * r)) of
           Inl e \<Rightarrow> Inl e
         | Inr r' \<Rightarrow>
             (case array_getitem GAMMA8 (py_int (255 * g)) of
                Inl e \<Rightarrow> Inl e
              | Inr g' \<Rightarrow>
                  (case array_getitem GAMMA8 (py_int (255 * b)) of
                     Inl e \<Rightarrow> Inl e
                   | Inr b' \<Rightarrow> Inr (r', g', b')))))"

subsection \<open>Tap threshold and time limit (lines 201-209)\<close>

text \<open>
  \<open>error_sos\<close> is a \<open>while True\<close> loop without exit, so a call to it never returns:
  the script does not go on to \<open>set_click\<close> or to the main loop.  The startup code
  is modelled by its outcome: the message \<open>error_sos\<close> was entered with, or the two
  register values handed to \<open>set_click\<close>.
\<close>

datatype sos = Tap_threshold_too_high | Time_limit_too_high

definition tap_threshold :: "real \<Rightarrow> int" where
  "tap_threshold thr_g = \<lceil>thr_g / (4 / 128)\<rceil>"

definition time_limit :: "real \<Rightarrow> int" where
  "time_limit limit_s = \<lceil>limit_s / (1 / 50)\<rceil>"

definition calibrate :: "real \<Rightarrow> real \<Rightarrow> sos + int \<times> int" where
  "calibrate thr_g limit_s =
     (if tap_threshold thr_g > 127 then Inl Tap_threshold_too_high
      else if time_limit limit_s > 127 then Inl Time_limit_too_high
      else Inr (tap_threshold thr_g, time_limit limit_s))"

subsection \<open>The NeoPixel buffer\<close>

text \<open>
  \<open>pixels\<close> is a buffer of \<open>pixels.n\<close> colours; \<open>pixels.fill(c)\<close> overwrites every
  entry, \<open>pixels[i] = c\<close> one entry, and \<open>pixels.write()\<close> sends the buffer to the
  LEDs.
\<close>

definition fill :: "rgb list \<Rightarrow> rgb \<Rightarrow> rgb list" where
  "fill pixels c = replicate (length pixels) c"

subsection \<open>\<open>error_sos\<close> (lines 151-172) and the startup code that calls it\<close>

text \<open>
  What \<open>error_sos\<close> acts on: the LEDs, the lines printed so far and the time spent
  in \<open>time.sleep\<close>.
\<close>

record sos_state =
  leds :: "rgb list"
  printed :: "string list"
  slept :: real

text \<open>One \<open>for i in range(3)\<close> loop: red, sleep, black, sleep.\<close>

fun blink :: "real \<Rightarrow> nat \<Rightarrow> sos_state \<Rightarrow> sos_state" where
  "blink period 0 s = s"
| "blink period (Suc k) s =
     (let s1 = s\<lparr>leds := fill (leds s) (255, 0, 0), slept := slept s + period\<rparr>;
          s2 = s1\<lparr>leds := fill (leds s1) (0, 0, 0), slept := slept s1 + period\<rparr>
      in blink period k s2)"

definition sos_pass :: "string \<Rightarrow> sos_state \<Rightarrow> sos_state" where
  "sos_pass message s =
     blink 0.50 3 (blink 0.25 3 (s\<lparr>printed := printed s @ [message]\<rparr>))"

text \<open>The \<open>while True\<close> loop: a result would be \<open>Some\<close>, not returning is \<open>None\<close>.\<close>

partial_function (option) error_sos :: "string \<Rightarrow> sos_state \<Rightarrow> unit option" where
  "error_sos message s = error_sos message (sos_pass message s)"

definition message_of :: "sos \<Rightarrow> string" where
  "message_of e =
     (case e of
        Tap_threshold_too_high \<Rightarrow> ''Tap threshold is too high to represent!''
      | Time_limit_too_high \<Rightarrow> ''Time limit is too high to represent!'')"

text \<open>
  Lines 201-212 with the calls of \<open>error_sos\<close> in place: the values that reach
  \<open>lis3dh.set_click\<close>, or \<open>None\<close> when control never gets there.
\<close>

definition startup :: "sos_state \<Rightarrow> real \<Rightarrow> real \<Rightarrow> (int \<times> int) option" where
  "startup s thr_g limit_s =
     (case (if tap_threshold thr_g > 127
            then error_sos (message_of Tap_threshold_too_high) s else Some ()) of
        None \<Rightarrow> None
      | Some _ \<Rightarrow>
          (case (if time_limit limit_s > 127
                 then error_sos (message_of Time_limit_too_high) s else Some ()) of
             None \<Rightarrow> None
           | Some _ \<Rightarrow> Some (tap_threshold thr_g, time_limit limit_s)))"

subsection \<open>\<open>animate_rainbow\<close> (lines 131-149)\<close>

text \<open>
  The body of \<open>for i in range(pixels.n)\<close>, over the indices still to visit.  An
  exception inside the loop ends it.
\<close>

fun rainbow_pixels :: "real \<Rightarrow> real \<Rightarrow> real \<Rightarrow> nat list \<Rightarrow> rgb list \<Rightarrow> py_error + rgb list" where
  "rainbow_pixels a phase_offset remaining [] pixels = Inr pixels"
| "rainbow_pixels a phase_offset remaining (i # todo) pixels =
     (let phase = real i * phase_offset;
          x = sin (a + phase)
      in case lerp x (- 1) 1 0 360 of
           Inl e \<Rightarrow> Inl e
         | Inr h \<Rightarrow>
             (case HSV_to_RGB h 1 remaining of
                Inl e \<Rightarrow> Inl e
              | Inr c \<Rightarrow> rainbow_pixels a phase_offset remaining todo (pixels[i := c])))"

definition animate_rainbow :: "rgb list \<Rightarrow> real \<Rightarrow> real \<Rightarrow> py_error + rgb list" where
  "animate_rainbow pixels current remaining =
     (let a = 2 * pi * ANIMATION_FREQ_HZ * current;
          n = length pixels
      in if n = 0 then Inl ZeroDivisionError
         else rainbow_pixels a (2 * pi / real n) remaining [0..<n] pixels)"

subsection \<open>Main loop (lines 216-245)\<close>

text \<open>
  The loop's variables, the pixel buffer, what the LEDs show after the latest
  \<open>pixels.write()\<close>, and which of the two drawing branches (line 231 or line 234)
  the latest iteration took.
\<close>

datatype drawing = Animate_rainbow real real | Fill rgb

record state =
  last_t :: real
  pixels_animate :: real
  pixels :: "rgb list"
  strip :: "rgb list"
  drawn :: drawing

text \<open>
  The state when the loop is entered: the setup code has filled the \<open>10\<close> pixels
  with black and written them (lines 177-179), \<open>last\<close> is the clock reading \<open>t0\<close>
  of line 216 and \<open>pixels_animate\<close> is \<open>0\<close>.
\<close>

definition init :: "real \<Rightarrow> state" where
  "init t0 =
     \<lparr>last_t = t0, pixels_animate = 0,
      pixels = replicate 10 (0, 0, 0), strip = replicate 10 (0, 0, 0),
      drawn = Fill (0, 0, 0)\<rparr>"

text \<open>
  One iteration.  Its inputs are what the hardware returns during it: \<open>current\<close>,
  the reading of \<open>time.monotonic()\<close>, and \<open>single\<close>, the first component of
  \<open>lis3dh.read_click()\<close>.
\<close>

definition loop_body :: "state \<Rightarrow> real \<Rightarrow> bool \<Rightarrow> py_error + state" where
  "loop_body s current single =
     (let delta = current - last_t s;
          pa = max 0 (pixels_animate s - delta);
          frame =
            (if pa > 0
             then (case animate_rainbow (pixels s) current (pa / STEP_FLASH_S) of
                     Inl e \<Rightarrow> Inl e
                   | Inr px \<Rightarrow> Inr (px, Animate_rainbow current (pa / STEP_FLASH_S)))
             else Inr (fill (pixels s) (0, 0, 0), Fill (0, 0, 0)))
      in case frame of
           Inl e \<Rightarrow> Inl e
         | Inr (px, d) \<Rightarrow>
             Inr \<lparr>last_t = current,
                  pixels_animate = (if single then STEP_FLASH_S else pa),
                  pixels = px, strip = px, drawn = d\<rparr>)"

text \<open>
  The loop never ends; \<open>run\<close> is the state after the iterations for which inputs are
  given, or the exception that stopped the script.
\<close>

fun run :: "state \<Rightarrow> (real \<times> bool) list \<Rightarrow> py_error + state" where
  "run s [] = Inr s"
| "run s ((current, single) # rest) =
     (case loop_body s current single of
        Inl e \<Rightarrow> Inl e
      | Inr s' \<Rightarrow> run s' rest)"

text \<open>The value line 225 assigns to \<open>pixels_animate\<close>.\<close>

definition decay :: "state \<Rightarrow> real \<Rightarrow> real" where
  "decay s current = max 0 (pixels_animate s - (current - last_t s))"

subsection \<open>Floating-point rounding\<close>

text \<open>
  A Python float is an IEEE 754 binary64 number, and an arithmetic operation returns
  the representable number nearest to the exact result, the one with the even
  significand when two are equally near.  \<open>round_even\<close> is that choice among the
  integers.  \<open>fl x\<close> is the float nearest to \<open>x\<close>: the spacing of the floats around
  \<open>x\<close> is \<open>2\<close> to the power \<open>e\<close>, \<open>52\<close> below the exponent of \<open>x\<close> and not below
  \<open>-1074\<close>.  Overflow is not modelled.
\<close>

definition round_even :: "real \<Rightarrow> int" where
  "round_even q =
     (let n = \<lfloor>q\<rfloor>; r = q - of_int n
      in if r < 1 / 2 then n else if 1 / 2 < r then n + 1 else if even n then n else n + 1)"

definition fl :: "real \<Rightarrow> real" where
  "fl x =
     (if x = 0 then 0
      else let e = max (\<lfloor>log 2 \<bar>x\<bar>\<rfloor> - 52) (- 1074)
           in of_int (round_even (x / 2 powr of_int e)) * 2 powr of_int e)"

subsection \<open>Main loop with rounded arithmetic (lines 220-243)\<close>




section \<open>Properties\<close>

subsection \<open>Gamma table and colour conversion\<close>

lemma GAMMA8_length: "length GAMMA8 = 256"
  by (simp add: GAMMA8_def)

lemma GAMMA8_bytes: "\<forall>x \<in> set GAMMA8. x \<le> 255"
  by (simp add: GAMMA8_def)

lemma GAMMA8_nth_byte: "k < 256 \<Longrightarrow> GAMMA8 ! k \<le> 255"
  using GAMMA8_bytes GAMMA8_length by (metis nth_mem)

lemma py_int_unit: "0 \<le> c \<Longrightarrow> c \<le> 1 \<Longrightarrow> 0 \<le> py_int (255 * c) \<and> py_int (255 * c) \<le> 255"
  by (simp add: py_int_def le_floor_iff floor_le_iff) 

lemma py_int_nonneg: "0 \<le> x \<Longrightarrow> py_int x = \<lfloor>x\<rfloor>"
  by (simp add: py_int_def)

lemma gamma_lookup:
  assumes "0 \<le> c" "c \<le> 1"
  shows "array_getitem GAMMA8 (py_int (255 * c)) = Inr (GAMMA8 ! nat \<lfloor>255 * c\<rfloor>)"
    and "GAMMA8 ! nat \<lfloor>255 * c\<rfloor> \<le> 255"
proof -
  have b: "0 \<le> py_int (255 * c)" "py_int (255 * c) \<le> 255"
    using py_int_unit [OF assms] by simp_all
  have e: "py_int (255 * c) = \<lfloor>255 * c\<rfloor>"
    using assms by (simp add: py_int_nonneg)
  show "array_getitem GAMMA8 (py_int (255 * c)) = Inr (GAMMA8 ! nat \<lfloor>255 * c\<rfloor>)"
    using b by (simp add: array_getitem_def GAMMA8_length e)
  have "\<lfloor>255 * c\<rfloor> \<le> 255" using b(2) unfolding e .
  then have "nat \<lfloor>255 * c\<rfloor> < 256" by linarith
  then show "GAMMA8 ! nat \<lfloor>255 * c\<rfloor> \<le> 255" by (rule GAMMA8_nth_byte)
qed

lemma hsv_channels_unit:
  assumes "0 \<le> s" "s \<le> 1" "0 \<le> v" "v \<le> 1"
    and "hsv_channels h s v = (r, g, b)"
  shows "0 \<le> r \<and> r \<le> 1 \<and> 0 \<le> g \<and> g \<le> 1 \<and> 0 \<le> b \<and> b \<le> 1"
proof -
  define f where "f = h / 60 - of_int \<lfloor>h / 60\<rfloor>"
  have f: "0 \<le> f" "f \<le> 1"
    unfolding f_def by linarith+
  have sf: "0 \<le> s * f" "s * f \<le> 1"
    using assms(1,2) f by (simp_all add: mult_le_one)
  have sf': "0 \<le> s * (1 - f)" "s * (1 - f) \<le> 1"
    using assms(1,2) f by (simp_all add: mult_le_one)
  have p: "0 \<le> v * (1 - s)" "v * (1 - s) \<le> 1"
    using assms(1-4) by (simp_all add: mult_le_one)
  have q: "0 \<le> v * (1 - s * f)" "v * (1 - s * f) \<le> 1"
    using assms(3,4) sf by (simp_all add: mult_le_one)
  have t: "0 \<le> v * (1 - s * (1 - f))" "v * (1 - s * (1 - f)) \<le> 1"
    using assms(3,4) sf' by (simp_all add: mult_le_one)
  show ?thesis
    using assms(3,4,5) p q t
    by (auto simp: hsv_channels_def Let_def f_def split: if_splits)
qed

lemma HSV_to_RGB_of_channels:
  assumes "hsv_channels h s v = (r, g, b)"
    and "0 \<le> r" "r \<le> 1" "0 \<le> g" "g \<le> 1" "0 \<le> b" "b \<le> 1"
  shows "HSV_to_RGB h s v =
         Inr (GAMMA8 ! nat \<lfloor>255 * r\<rfloor>, GAMMA8 ! nat \<lfloor>255 * g\<rfloor>, GAMMA8 ! nat \<lfloor>255 * b\<rfloor>)"
  using assms by (simp add: HSV_to_RGB_def gamma_lookup(1))

lemma HSV_to_RGB_total:
  assumes "0 \<le> s" "s \<le> 1" "0 \<le> v" "v \<le> 1"
  shows "\<exists>r g b. HSV_to_RGB h s v = Inr (r, g, b) \<and> r \<le> 255 \<and> g \<le> 255 \<and> b \<le> 255"
proof -
  obtain r g b where c: "hsv_channels h s v = (r, g, b)"
    by (metis prod_cases3)
  have u: "0 \<le> r \<and> r \<le> 1 \<and> 0 \<le> g \<and> g \<le> 1 \<and> 0 \<le> b \<and> b \<le> 1"
    using hsv_channels_unit [OF assms c] .
  have "HSV_to_RGB h s v =
         Inr (GAMMA8 ! nat \<lfloor>255 * r\<rfloor>, GAMMA8 ! nat \<lfloor>255 * g\<rfloor>, GAMMA8 ! nat \<lfloor>255 * b\<rfloor>)"
    using HSV_to_RGB_of_channels [OF c] u by simp
  moreover have "GAMMA8 ! nat \<lfloor>255 * r\<rfloor> \<le> 255" "GAMMA8 ! nat \<lfloor>255 * g\<rfloor> \<le> 255"
    "GAMMA8 ! nat \<lfloor>255 * b\<rfloor> \<le> 255"
    using u by (simp_all add: gamma_lookup(2))
  ultimately show ?thesis by simp
qed

lemma GAMMA8_0: "GAMMA8 ! 0 = 0"
  by (simp add: GAMMA8_def)

lemma GAMMA8_255: "GAMMA8 ! 255 = 255"
  by (simp add: GAMMA8_def)



subsection \<open>One frame, one iteration, many iterations\<close>

lemma lerp_hue: "lerp x (- 1) 1 0 360 = Inr (180 * x + 180)"
  by (simp add: lerp_def)

lemma rainbow_pixels_ok:
  assumes "0 \<le> remaining" "remaining \<le> 1"
  shows "\<exists>px'. rainbow_pixels a phase_offset remaining todo px = Inr px' \<and> length px' = length px"
proof (induction todo arbitrary: px)
  case Nil
  show ?case by simp
next
  case (Cons i todo)
  obtain r g b where c: "HSV_to_RGB (180 * sin (a + real i * phase_offset) + 180) 1 remaining = Inr (r, g, b)"
    using HSV_to_RGB_total [of 1 remaining] assms by force
  obtain px' where "rainbow_pixels a phase_offset remaining todo (px[i := (r, g, b)]) = Inr px'"
    "length px' = length (px[i := (r, g, b)])"
    using Cons.IH by blast
  then show ?case
    by (simp add: lerp_hue c)
qed

lemma animate_rainbow_ok:
  assumes "px \<noteq> []" "0 \<le> remaining" "remaining \<le> 1"
  shows "\<exists>px'. animate_rainbow px current remaining = Inr px' \<and> length px' = length px"
  using assms(1) rainbow_pixels_ok [OF assms(2,3)]
  by (simp add: animate_rainbow_def Let_def)

lemma loop_body_decay:
  "loop_body s current single =
     (case (if decay s current > 0
            then (case animate_rainbow (pixels s) current (decay s current / STEP_FLASH_S) of
                    Inl e \<Rightarrow> Inl e
                  | Inr px \<Rightarrow> Inr (px, Animate_rainbow current (decay s current / STEP_FLASH_S)))
            else Inr (fill (pixels s) (0, 0, 0), Fill (0, 0, 0))) of
        Inl e \<Rightarrow> Inl e
      | Inr (px, d) \<Rightarrow>
          Inr \<lparr>last_t = current,
               pixels_animate = (if single then STEP_FLASH_S else decay s current),
               pixels = px, strip = px, drawn = d\<rparr>)"
  unfolding loop_body_def decay_def Let_def ..

lemma loop_body_ok:
  assumes "0 \<le> pixels_animate s" "pixels_animate s \<le> STEP_FLASH_S"
    and "last_t s \<le> current" "pixels s \<noteq> []"
  shows "\<exists>s'. loop_body s current single = Inr s' \<and> last_t s' = current \<and>
           pixels_animate s' = (if single then STEP_FLASH_S else decay s current) \<and>
           length (pixels s') = length (pixels s) \<and> strip s' = pixels s' \<and>
           (decay s current = 0 \<longrightarrow>
              strip s' = replicate (length (pixels s)) (0, 0, 0) \<and> drawn s' = Fill (0, 0, 0))"
proof (cases "decay s current > 0")
  case True
  have le: "decay s current \<le> STEP_FLASH_S"
    using assms(2,3) True by (simp add: decay_def)
  have F: "0 < STEP_FLASH_S" by (simp add: STEP_FLASH_S_def)
  have r: "0 \<le> decay s current / STEP_FLASH_S" "decay s current / STEP_FLASH_S \<le> 1"
    using True le F by simp_all
  obtain px' where "animate_rainbow (pixels s) current (decay s current / STEP_FLASH_S) = Inr px'"
    "length px' = length (pixels s)"
    using animate_rainbow_ok [OF assms(4) r] by blast
  then show ?thesis
    using True by (simp add: loop_body_decay)
next
  case False
  have "0 \<le> decay s current" by (simp add: decay_def)
  with False have "decay s current = 0" by simp
  then show ?thesis
    by (simp add: loop_body_decay fill_def)
qed

lemma decay_range:
  assumes "0 \<le> pixels_animate s" "pixels_animate s \<le> STEP_FLASH_S" "last_t s \<le> current"
  shows "0 \<le> decay s current" "decay s current \<le> STEP_FLASH_S"
  using assms by (simp_all add: decay_def)

lemma run_inv:
  assumes "sorted (last_t s # map fst inputs)"
    and "0 \<le> pixels_animate s" "pixels_animate s \<le> STEP_FLASH_S" "pixels s \<noteq> []"
  shows "\<exists>s'. run s inputs = Inr s' \<and> 0 \<le> pixels_animate s' \<and>
           pixels_animate s' \<le> STEP_FLASH_S \<and> length (pixels s') = length (pixels s)"
  using assms
proof (induction inputs arbitrary: s)
  case Nil
  then show ?case by simp
next
  case (Cons x inputs)
  obtain current single where x: "x = (current, single)" by (cases x)
  have mono: "last_t s \<le> current" "sorted (current # map fst inputs)"
    using Cons.prems(1) by (simp_all add: x)
  obtain s1 where s1: "loop_body s current single = Inr s1" "last_t s1 = current"
    "pixels_animate s1 = (if single then STEP_FLASH_S else decay s current)"
    "length (pixels s1) = length (pixels s)"
    using loop_body_ok [OF Cons.prems(2,3) mono(1) Cons.prems(4)] by blast
  have F: "0 \<le> STEP_FLASH_S" by (simp add: STEP_FLASH_S_def)
  have r: "0 \<le> pixels_animate s1" "pixels_animate s1 \<le> STEP_FLASH_S"
    using s1(3) decay_range [OF Cons.prems(2,3) mono(1)] F by (simp_all split: if_splits)
  have ne: "pixels s1 \<noteq> []"
    using s1(4) Cons.prems(4) by auto
  have "sorted (last_t s1 # map fst inputs)"
    using mono(2) s1(2) by simp
  from Cons.IH [OF this r ne] show ?case
    by (simp add: x s1(1) s1(4))
qed

subsection \<open>Rounding\<close>










subsection \<open>Iterations with rounded arithmetic\<close>
















subsection \<open>Startup\<close>

lemma error_sos_no_result:
  assumes "error_sos message s = Some u"
  shows False
  by (rule error_sos.raw_induct [where P = "\<lambda>_ _ _. False", OF _ assms]) blast

lemma error_sos_never_returns: "error_sos message s = None"
  using error_sos_no_result [of message s] by (cases "error_sos message s") auto

lemma startup_calibrate:
  "startup s thr_g limit_s =
     (case calibrate thr_g limit_s of Inl e \<Rightarrow> None | Inr codes \<Rightarrow> Some codes)"
  by (simp add: startup_def calibrate_def error_sos_never_returns)

lemma loop_body_pixels_animate:
  assumes "loop_body s current single = Inr s'"
  shows "pixels_animate s' = (if single then STEP_FLASH_S else decay s current)"
  using assms by (auto simp: loop_body_decay split: if_splits sum.splits)

section \<open>The claims\<close>




text \<open>
  C2 (state invariant).  \<open>pixels_animate\<close> is \<open>0\<close> when the loop is entered.  With a
  clock that never goes back, every number \<open>k\<close> of iterations completes and leaves
  \<open>0 \<le> pixels_animate \<le> STEP_FLASH_S\<close>.  An iteration that completes leaves
  \<open>STEP_FLASH_S\<close> when it saw a tap, and otherwise the old value less the elapsed
  time, but not below \<open>0\<close>.
\<close>

theorem pixels_animate_invariant:
  assumes "sorted (t0 # map fst inputs)"
  shows "pixels_animate (init t0) = 0 \<and>
         (\<forall>k. \<exists>s'. run (init t0) (take k inputs) = Inr s' \<and>
                 0 \<le> pixels_animate s' \<and> pixels_animate s' \<le> STEP_FLASH_S) \<and>
         (\<forall>s current single s'. loop_body s current single = Inr s' \<longrightarrow>
            pixels_animate s' =
              (if single then STEP_FLASH_S
               else max 0 (pixels_animate s - (current - last_t s))))"
proof (intro conjI allI impI)
  show "pixels_animate (init t0) = 0"
    by (simp add: init_def)
next
  fix k
  have "sorted (take (Suc k) (t0 # map fst inputs))"
    using assms by (rule sorted_wrt_take)
  then have srt: "sorted (last_t (init t0) # map fst (take k inputs))"
    by (simp add: take_map init_def)
  have "\<exists>s'. run (init t0) (take k inputs) = Inr s' \<and> 0 \<le> pixels_animate s' \<and>
           pixels_animate s' \<le> STEP_FLASH_S \<and> length (pixels s') = length (pixels (init t0))"
    using srt by (rule run_inv) (simp_all add: init_def STEP_FLASH_S_def)
  then show "\<exists>s'. run (init t0) (take k inputs) = Inr s' \<and>
                 0 \<le> pixels_animate s' \<and> pixels_animate s' \<le> STEP_FLASH_S"
    by blast
next
  fix s current single s'
  assume "loop_body s current single = Inr s'"
  then show "pixels_animate s' =
      (if single then STEP_FLASH_S else max 0 (pixels_animate s - (current - last_t s)))"
    by (simp add: loop_body_pixels_animate decay_def)
qed

theorem pixels_animate_invariant_witness:
  "sorted ((0::real) # map fst [(1, True), (6/5, False), (3, False)]) \<and>
   (\<exists>s'. run (init 0) [(1, True), (6/5, False)] = Inr s' \<and>
         0 \<le> pixels_animate s' \<and> pixels_animate s' \<le> STEP_FLASH_S)"
proof -
  have srt: "sorted ((0::real) # map fst [(1, True), (6/5, False), (3, False)])"
    by simp
  from pixels_animate_invariant [OF srt]
  have "\<exists>s'. run (init 0) (take 2 [(1, True), (6/5, False), (3, False)]) = Inr s' \<and>
          0 \<le> pixels_animate s' \<and> pixels_animate s' \<le> STEP_FLASH_S"
    by blast
  then show ?thesis
    using srt by (simp add: numeral_2_eq_2)
qed

text \<open>
  C3 (trigger restart).  Whatever positive value \<open>pixels_animate\<close> has at the start
  of an iteration (within the bound of C2, and with a clock that has not gone back),
  an iteration that sees a tap completes and leaves \<open>pixels_animate\<close> equal to
  \<open>STEP_FLASH_S\<close>: the old value is overwritten, nothing is added to it.
\<close>

theorem trigger_restart:
  assumes "0 < pixels_animate s" and "pixels_animate s \<le> STEP_FLASH_S"
    and "last_t s \<le> current" and "pixels s \<noteq> []"
  shows "\<exists>s'. loop_body s current True = Inr s' \<and> pixels_animate s' = STEP_FLASH_S"
  using loop_body_ok [of s current True] assms by auto

theorem trigger_restart_witness:
  "\<exists>s'. loop_body ((init 0)\<lparr>pixels_animate := 3/10\<rparr>) (1/10) True = Inr s' \<and>
        pixels_animate s' = STEP_FLASH_S"
  using trigger_restart [of "(init 0)\<lparr>pixels_animate := 3/10\<rparr>" "1/10"]
  by (simp add: init_def STEP_FLASH_S_def)




text \<open>
  C5.  At full saturation and value the hues \<open>0, 60, 120, 180, 240, 300\<close> give the
  gamma-corrected red, yellow, green, cyan, blue and magenta; \<open>GAMMA8[255]\<close> is
  \<open>255\<close> and \<open>GAMMA8[0]\<close> is \<open>0\<close>.
\<close>

theorem sector_boundaries:
  "HSV_to_RGB 0 1 1 = Inr (GAMMA8 ! 255, GAMMA8 ! 0, GAMMA8 ! 0) \<and>
   HSV_to_RGB 60 1 1 = Inr (GAMMA8 ! 255, GAMMA8 ! 255, GAMMA8 ! 0) \<and>
   HSV_to_RGB 120 1 1 = Inr (GAMMA8 ! 0, GAMMA8 ! 255, GAMMA8 ! 0) \<and>
   HSV_to_RGB 180 1 1 = Inr (GAMMA8 ! 0, GAMMA8 ! 255, GAMMA8 ! 255) \<and>
   HSV_to_RGB 240 1 1 = Inr (GAMMA8 ! 0, GAMMA8 ! 0, GAMMA8 ! 255) \<and>
   HSV_to_RGB 300 1 1 = Inr (GAMMA8 ! 255, GAMMA8 ! 0, GAMMA8 ! 255) \<and>
   GAMMA8 ! 255 = 255 \<and> GAMMA8 ! 0 = 0"
proof -
  have c: "hsv_channels 0 1 1 = (1, 0, 0)" "hsv_channels 60 1 1 = (1, 1, 0)"
    "hsv_channels 120 1 1 = (0, 1, 0)" "hsv_channels 180 1 1 = (0, 1, 1)"
    "hsv_channels 240 1 1 = (0, 0, 1)" "hsv_channels 300 1 1 = (1, 0, 1)"
    by (simp_all add: hsv_channels_def Let_def)
  show ?thesis
    using c [THEN HSV_to_RGB_of_channels] by (simp add: GAMMA8_0 GAMMA8_255)
qed

text \<open>
  C6.  With the configured \<open>1.5\<close> g and \<open>0.25\<close> s (range 4 g, 50 Hz) the register
  values are \<open>48\<close> and \<open>13\<close>; neither check fails, and the startup code reaches
  \<open>set_click\<close> with them.
\<close>

theorem calibrate_configuration:
  "tap_threshold TAP_THRESHOLD_G = 48 \<and> time_limit TAP_TIME_LIMIT_S = 13 \<and>
   calibrate TAP_THRESHOLD_G TAP_TIME_LIMIT_S = Inr (48, 13) \<and>
   startup s TAP_THRESHOLD_G TAP_TIME_LIMIT_S = Some (48, 13)"
proof -
  have c: "tap_threshold TAP_THRESHOLD_G = 48" "time_limit TAP_TIME_LIMIT_S = 13"
    by (simp_all add: tap_threshold_def time_limit_def TAP_THRESHOLD_G_def TAP_TIME_LIMIT_S_def)
  then have "calibrate TAP_THRESHOLD_G TAP_TIME_LIMIT_S = Inr (48, 13)"
    by (simp add: calibrate_def)
  then show ?thesis
    using c by (simp add: startup_calibrate)
qed

text \<open>
  C7, as stated: the failure is the time-limit one exactly when the time-limit
  value exceeds \<open>127\<close>.  With \<open>5.0\<close> g and \<open>3.0\<close> s the time-limit value is \<open>150\<close>, but
  the threshold check of line 202 comes first and its \<open>error_sos\<close> never returns.
\<close>

theorem time_limit_masked_counterexample:
  "time_limit 3 > 127 \<and> calibrate 5 3 = Inl Tap_threshold_too_high \<and>
   calibrate 5 3 \<noteq> Inl Time_limit_too_high"
  by (simp add: calibrate_def tap_threshold_def time_limit_def)

text \<open>
  C7, amended: the startup code stops with the threshold message exactly when the
  threshold value exceeds \<open>127\<close> (\<open>5.0\<close> g gives \<open>160\<close>), and with the time-limit
  message exactly when the time-limit value exceeds \<open>127\<close> and the threshold value
  does not.  \<open>error_sos\<close> never returns, so in both cases, and in no other, the
  startup code does not reach \<open>set_click\<close>.
\<close>

theorem calibrate_failures:
  "(calibrate thr_g limit_s = Inl Tap_threshold_too_high) = (tap_threshold thr_g > 127) \<and>
   (calibrate thr_g limit_s = Inl Time_limit_too_high) =
     (time_limit limit_s > 127 \<and> tap_threshold thr_g \<le> 127) \<and>
   tap_threshold 5 = 160 \<and> calibrate 5 limit_s = Inl Tap_threshold_too_high \<and>
   error_sos message s = None \<and>
   (startup s thr_g limit_s = None) = (tap_threshold thr_g > 127 \<or> time_limit limit_s > 127)"
proof -
  have a: "(calibrate thr_g limit_s = Inl Tap_threshold_too_high) = (tap_threshold thr_g > 127)"
    by (simp add: calibrate_def)
  have b: "(calibrate thr_g limit_s = Inl Time_limit_too_high) =
     (time_limit limit_s > 127 \<and> tap_threshold thr_g \<le> 127)"
    by (auto simp: calibrate_def)
  have c: "tap_threshold 5 = 160"
    by (simp add: tap_threshold_def)
  then have d: "calibrate 5 limit_s = Inl Tap_threshold_too_high"
    by (simp add: calibrate_def)
  have e: "(startup s thr_g limit_s = None) = (tap_threshold thr_g > 127 \<or> time_limit limit_s > 127)"
    by (auto simp: startup_calibrate calibrate_def)
  show ?thesis
    using a b c d e error_sos_never_returns [of message s] by blast
qed

text \<open>
  C8, as stated: every pair of values that passes the checks lies in \<open>[0, 127]\<close>.
  A threshold of \<open>-1\<close> g passes both checks, which only look for values that are too
  high, with the value \<open>-32\<close>.
\<close>

theorem negative_threshold_counterexample:
  "calibrate (- 1) (1 / 4) = Inr (- 32, 13)"
  by (simp add: calibrate_def tap_threshold_def time_limit_def)

text \<open>
  C8, amended: for every threshold and time window that are not negative, values
  that pass the checks lie in \<open>[0, 127]\<close>.
\<close>

theorem calibrate_codes_range:
  assumes "calibrate thr_g limit_s = Inr (a, b)" and "0 \<le> thr_g" and "0 \<le> limit_s"
  shows "0 \<le> a \<and> a \<le> 127 \<and> 0 \<le> b \<and> b \<le> 127"
proof -
  have a: "a = tap_threshold thr_g" "a \<le> 127" and b: "b = time_limit limit_s" "b \<le> 127"
    using assms(1) by (auto simp: calibrate_def split: if_splits)
  have "0 \<le> tap_threshold thr_g"
    unfolding tap_threshold_def using assms(2) by (simp add: le_ceiling_iff)
  moreover have "0 \<le> time_limit limit_s"
    unfolding time_limit_def using assms(3) by (simp add: le_ceiling_iff)
  ultimately show ?thesis using a b by simp
qed

theorem calibrate_codes_range_witness:
  "calibrate (3/2) (1/4) = Inr (48, 13) \<and> (0::int) \<le> 48 \<and> (48::int) \<le> 127 \<and>
   (0::int) \<le> 13 \<and> (13::int) \<le> 127"
proof -
  have c: "calibrate (3/2) (1/4) = Inr (48, 13)"
    by (simp add: calibrate_def tap_threshold_def time_limit_def)
  from calibrate_codes_range [OF c] show ?thesis
    using c by simp
qed

text \<open>
  C9, as stated: for \<open>-1 \<le> x \<le> 1\<close> the interpolated hue is below \<open>360\<close>.  At
  \<open>x = 1\<close> it is \<open>360\<close>, and the sine of line 145 is \<open>1\<close> for pixel \<open>0\<close> at
  \<open>current = 0.25\<close>.
\<close>

theorem hue_360_counterexample:
  "lerp 1 (- 1) 1 0 360 = Inr 360 \<and>
   sin (2 * pi * ANIMATION_FREQ_HZ * (1 / 4) + real 0 * (2 * pi / real 10)) = 1"
  by (simp add: lerp_def ANIMATION_FREQ_HZ_def)

text \<open>
  C9, amended: for \<open>-1 \<le> x \<le> 1\<close> the interpolation does not fail and its hue lies
  in the closed interval \<open>[0, 360]\<close>; the bound \<open>360\<close> is reached, at \<open>x = 1\<close>.
\<close>

theorem hue_closed_range:
  assumes "- 1 \<le> x" and "x \<le> 1"
  shows "(\<exists>h. lerp x (- 1) 1 0 360 = Inr h \<and> 0 \<le> h \<and> h \<le> 360) \<and>
         lerp 1 (- 1) 1 0 360 = Inr 360"
  using assms by (simp add: lerp_def)

theorem hue_closed_range_witness:
  "(\<exists>h. lerp (1/2) (- 1) 1 0 360 = Inr h \<and> 0 \<le> h \<and> h \<le> 360) \<and>
   lerp 1 (- 1) 1 0 360 = Inr 360"
  using hue_closed_range [of "1/2"] by simp

text \<open>
  C10.  For saturation and value in \<open>[0, 1]\<close> and any hue, \<open>HSV_to_RGB\<close> returns a
  colour: \<open>p\<close>, \<open>q\<close> and \<open>t\<close> lie in \<open>[0, 1]\<close>, so do the three channels chosen, each
  table index \<open>int(255.0*c)\<close> lies in \<open>[0, 255]\<close>, and each byte returned is at most
  \<open>255\<close>.  When the saturation is not \<open>0\<close> and the sector is none of \<open>0, ..., 4\<close>, the
  channels are those of the final \<open>else\<close>.
\<close>

theorem HSV_to_RGB_safe:
  assumes "0 \<le> s" and "s \<le> 1" and "0 \<le> v" and "v \<le> 1"
  shows "(\<exists>r g b.
           hsv_channels h s v = (r, g, b) \<and>
           0 \<le> r \<and> r \<le> 1 \<and> 0 \<le> g \<and> g \<le> 1 \<and> 0 \<le> b \<and> b \<le> 1 \<and>
           0 \<le> py_int (255 * r) \<and> py_int (255 * r) \<le> 255 \<and>
           0 \<le> py_int (255 * g) \<and> py_int (255 * g) \<le> 255 \<and>
           0 \<le> py_int (255 * b) \<and> py_int (255 * b) \<le> 255 \<and>
           HSV_to_RGB h s v =
             Inr (GAMMA8 ! nat (py_int (255 * r)), GAMMA8 ! nat (py_int (255 * g)),
                  GAMMA8 ! nat (py_int (255 * b))) \<and>
           GAMMA8 ! nat (py_int (255 * r)) \<le> 255 \<and>
           GAMMA8 ! nat (py_int (255 * g)) \<le> 255 \<and>
           GAMMA8 ! nat (py_int (255 * b)) \<le> 255 \<and>
           (s \<noteq> 0 \<and> \<lfloor>h / 60\<rfloor> \<notin> {0, 1, 2, 3, 4} \<longrightarrow>
              (r, g, b) = (v, v * (1 - s), v * (1 - s * (h / 60 - of_int \<lfloor>h / 60\<rfloor>))))) \<and>
         (0 \<le> v * (1 - s) \<and> v * (1 - s) \<le> 1) \<and>
         (0 \<le> v * (1 - s * (h / 60 - of_int \<lfloor>h / 60\<rfloor>)) \<and>
          v * (1 - s * (h / 60 - of_int \<lfloor>h / 60\<rfloor>)) \<le> 1) \<and>
         (0 \<le> v * (1 - s * (1 - (h / 60 - of_int \<lfloor>h / 60\<rfloor>))) \<and>
          v * (1 - s * (1 - (h / 60 - of_int \<lfloor>h / 60\<rfloor>))) \<le> 1)"
proof -
  obtain r g b where c: "hsv_channels h s v = (r, g, b)"
    by (metis prod_cases3)
  have u: "0 \<le> r \<and> r \<le> 1 \<and> 0 \<le> g \<and> g \<le> 1 \<and> 0 \<le> b \<and> b \<le> 1"
    using hsv_channels_unit [OF assms c] .
  have i: "py_int (255 * r) = \<lfloor>255 * r\<rfloor>" "py_int (255 * g) = \<lfloor>255 * g\<rfloor>"
    "py_int (255 * b) = \<lfloor>255 * b\<rfloor>"
    using u by (simp_all add: py_int_nonneg)
  have j: "0 \<le> py_int (255 * r) \<and> py_int (255 * r) \<le> 255"
    "0 \<le> py_int (255 * g) \<and> py_int (255 * g) \<le> 255"
    "0 \<le> py_int (255 * b) \<and> py_int (255 * b) \<le> 255"
    using u by (simp_all add: py_int_unit)
  have k: "HSV_to_RGB h s v =
      Inr (GAMMA8 ! nat (py_int (255 * r)), GAMMA8 ! nat (py_int (255 * g)),
           GAMMA8 ! nat (py_int (255 * b)))"
    unfolding i using HSV_to_RGB_of_channels [OF c] u by simp
  have l: "GAMMA8 ! nat (py_int (255 * r)) \<le> 255" "GAMMA8 ! nat (py_int (255 * g)) \<le> 255"
    "GAMMA8 ! nat (py_int (255 * b)) \<le> 255"
    unfolding i using u by (simp_all add: gamma_lookup(2))
  have m: "s \<noteq> 0 \<and> \<lfloor>h / 60\<rfloor> \<notin> {0, 1, 2, 3, 4} \<longrightarrow>
      (r, g, b) = (v, v * (1 - s), v * (1 - s * (h / 60 - of_int \<lfloor>h / 60\<rfloor>)))"
    using c by (auto simp: hsv_channels_def Let_def)
  have first: "\<exists>r g b.
           hsv_channels h s v = (r, g, b) \<and>
           0 \<le> r \<and> r \<le> 1 \<and> 0 \<le> g \<and> g \<le> 1 \<and> 0 \<le> b \<and> b \<le> 1 \<and>
           0 \<le> py_int (255 * r) \<and> py_int (255 * r) \<le> 255 \<and>
           0 \<le> py_int (255 * g) \<and> py_int (255 * g) \<le> 255 \<and>
           0 \<le> py_int (255 * b) \<and> py_int (255 * b) \<le> 255 \<and>
           HSV_to_RGB h s v =
             Inr (GAMMA8 ! nat (py_int (255 * r)), GAMMA8 ! nat (py_int (255 * g)),
                  GAMMA8 ! nat (py_int (255 * b))) \<and>
           GAMMA8 ! nat (py_int (255 * r)) \<le> 255 \<and>
           GAMMA8 ! nat (py_int (255 * g)) \<le> 255 \<and>
           GAMMA8 ! nat (py_int (255 * b)) \<le> 255 \<and>
           (s \<noteq> 0 \<and> \<lfloor>h / 60\<rfloor> \<notin> {0, 1, 2, 3, 4} \<longrightarrow>
              (r, g, b) = (v, v * (1 - s), v * (1 - s * (h / 60 - of_int \<lfloor>h / 60\<rfloor>))))"
    using c u j k l m by blast
  define f where "f = h / 60 - of_int \<lfloor>h / 60\<rfloor>"
  have f: "0 \<le> f" "f \<le> 1"
    unfolding f_def by linarith+
  have sf: "0 \<le> s * f" "s * f \<le> 1" "0 \<le> s * (1 - f)" "s * (1 - f) \<le> 1"
    using assms(1,2) f by (simp_all add: mult_le_one)
  have p: "0 \<le> v * (1 - s) \<and> v * (1 - s) \<le> 1"
    using assms by (simp add: mult_le_one)
  have q: "0 \<le> v * (1 - s * f) \<and> v * (1 - s * f) \<le> 1"
    using assms(3,4) sf(1,2) by (simp add: mult_le_one)
  have t: "0 \<le> v * (1 - s * (1 - f)) \<and> v * (1 - s * (1 - f)) \<le> 1"
    using assms(3,4) sf(3,4) by (simp add: mult_le_one)
  show ?thesis
    using first p q [unfolded f_def] t [unfolded f_def] by blast
qed

theorem HSV_to_RGB_safe_witness:
  "HSV_to_RGB 360 1 1 = Inr (255, 0, 255)"
proof -
  have fl: "\<lfloor>360 / 60 :: real\<rfloor> = 6" by simp
  from HSV_to_RGB_safe [of 1 1 360]
  obtain r g b where "HSV_to_RGB 360 1 1 =
      Inr (GAMMA8 ! nat (py_int (255 * r)), GAMMA8 ! nat (py_int (255 * g)),
           GAMMA8 ! nat (py_int (255 * b)))"
    and "(r, g, b) = (1, 0, 1)"
    unfolding fl by auto
  then show ?thesis
    by (simp add: py_int_def GAMMA8_0 GAMMA8_255)
qed

end
